theory Spec2Isabelle
  imports
    Complex_Main
    "HOL-Library.Char_ord"
    "HOL-Library.List_Lexorder"
    "HOL-Library.Product_Lexorder"
begin

section \<open>Data model of \<^verbatim>\<open>scripts/visualizacion_burbujas.py\<close>\<close>

text \<open>
  The script is a linear batch pipeline over two tables. A table (a pandas data frame) is
  a list of rows in row order; a column is a field of the row record.

  A date is a calendar date \<open>(year, month, day)\<close>. Timestamps of calendar dates compare
  chronologically, which is the lexicographic order of the triple. Strings (the
  \<^verbatim>\<open>index\<close> and \<^verbatim>\<open>period\<close> columns) compare lexicographically by character code, as
  Python strings do.
\<close>

type_synonym date = "nat \<times> nat \<times> nat"

text \<open>
  A numeric cell is a float: a finite number, an infinity, or NaN (which is also how
  pandas stores a missing number).

  A float operation on two finite numbers gives the exact result, rounded to the float
  format; the rounding also turns a result too large for the format into an infinity.
  The rounding function \<open>rnd\<close> of the format is a parameter of the arithmetic, and of
  everything computed with it. \<open>float_rounding\<close> states what the properties below use of
  it, all of which hold of the rounding of 64-bit floats: the rounding of a real number
  is never NaN, rounding is monotone, and every integer of magnitude up to \<open>2 ^ 53\<close> is
  a float, so it rounds to itself. Division by zero is written out as floats do it (an
  infinity, or NaN for \<open>0 / 0\<close>), not as the \<open>x / 0 = 0\<close> of the reals of HOL. The sign
  of zero is not modelled.
\<close>

datatype fval = Fin real | PInf | NInf | NaN

fun fmul :: "(real \<Rightarrow> fval) \<Rightarrow> fval \<Rightarrow> fval \<Rightarrow> fval" where
  "fmul rnd NaN _ = NaN"
| "fmul rnd _ NaN = NaN"
| "fmul rnd (Fin a) (Fin b) = rnd (a * b)"
| "fmul rnd (Fin a) PInf = (if a = 0 then NaN else if 0 < a then PInf else NInf)"
| "fmul rnd (Fin a) NInf = (if a = 0 then NaN else if 0 < a then NInf else PInf)"
| "fmul rnd PInf (Fin b) = (if b = 0 then NaN else if 0 < b then PInf else NInf)"
| "fmul rnd NInf (Fin b) = (if b = 0 then NaN else if 0 < b then NInf else PInf)"
| "fmul rnd PInf PInf = PInf"
| "fmul rnd PInf NInf = NInf"
| "fmul rnd NInf PInf = NInf"
| "fmul rnd NInf NInf = PInf"

fun fdiv :: "(real \<Rightarrow> fval) \<Rightarrow> fval \<Rightarrow> fval \<Rightarrow> fval" where
  "fdiv rnd NaN _ = NaN"
| "fdiv rnd _ NaN = NaN"
| "fdiv rnd (Fin a) (Fin b) =
     (if b \<noteq> 0 then rnd (a / b)
      else if a = 0 then NaN else if 0 < a then PInf else NInf)"
| "fdiv rnd (Fin a) PInf = Fin 0"
| "fdiv rnd (Fin a) NInf = Fin 0"
| "fdiv rnd PInf (Fin b) = (if 0 \<le> b then PInf else NInf)"
| "fdiv rnd NInf (Fin b) = (if 0 \<le> b then NInf else PInf)"
| "fdiv rnd PInf PInf = NaN"
| "fdiv rnd PInf NInf = NaN"
| "fdiv rnd NInf PInf = NaN"
| "fdiv rnd NInf NInf = NaN"

text \<open>\<^verbatim>\<open>Series.notna()\<close>: only NaN is missing; an infinity is a value.\<close>

fun notna :: "fval \<Rightarrow> bool" where
  "notna NaN = False"
| "notna _ = True"

text \<open>The order of floats restricted to non-NaN values, as \<^verbatim>\<open>Series.min()\<close> uses it.\<close>

fun fle :: "fval \<Rightarrow> fval \<Rightarrow> bool" where
  "fle NaN _ = False"
| "fle _ NaN = False"
| "fle NInf _ = True"
| "fle _ PInf = True"
| "fle (Fin a) (Fin b) = (a \<le> b)"
| "fle _ _ = False"

definition float_rounding :: "(real \<Rightarrow> fval) \<Rightarrow> bool" where
  "float_rounding rnd =
     ((\<forall>x. rnd x \<noteq> NaN)
      \<and> (\<forall>x y. x \<le> y \<longrightarrow> fle (rnd x) (rnd y))
      \<and> (\<forall>n :: int. \<bar>n\<bar> \<le> 2 ^ 53 \<longrightarrow> rnd (of_int n) = Fin (of_int n)))"

text \<open>
  The rounding of a format of unbounded precision, which leaves every number as it is.
  It is used to evaluate the sample inputs below, whose numbers are integers and small
  binary fractions.
\<close>

definition exact :: "real \<Rightarrow> fval" where
  "exact x = Fin x"

text \<open>
  A row of \<^verbatim>\<open>indices_dotcom_ia_dataset.csv\<close>:
  \<^verbatim>\<open>date, index, period, close, drawdown, rolling_vol_30d\<close>.
\<close>

record obs =
  date :: date
  index :: string
  period :: string
  close :: fval
  drawdown :: fval
  rolling_vol_30d :: fval

text \<open>
  The same row after section 2 of the script has added the columns
  \<^verbatim>\<open>period_label\<close>, \<^verbatim>\<open>close_indexed_100\<close> and \<^verbatim>\<open>drawdown_pct\<close>.
\<close>

record drow = obs +
  period_label :: "string option"
  close_indexed_100 :: fval
  drawdown_pct :: fval

section \<open>Section 2 of the script: derived columns\<close>

text \<open>\<^verbatim>\<open>df.sort_values(["index", "period", "date"])\<close>\<close>

definition sort_values :: "obs list \<Rightarrow> obs list" where
  "sort_values df = sort_key (\<lambda>r. (index r, period r, date r)) df"

text \<open>
  The dictionary \<^verbatim>\<open>period_labels\<close>. The labels hold an en dash, three bytes in UTF-8.
  \<^verbatim>\<open>Series.map(dict)\<close> gives a missing value for a key that is not in the dictionary.
\<close>

definition en_dash :: string where
  "en_dash = [CHR 0xE2, CHR 0x80, CHR 0x93]"

definition period_labels :: "string \<rightharpoonup> string" where
  "period_labels =
     [''dotcom'' \<mapsto> ''Burbuja puntocom (1997'' @ en_dash @ ''2002)'',
      ''ia'' \<mapsto> ''Narrativa IA (2020'' @ en_dash @ ''2025)'']"

text \<open>
  \<^verbatim>\<open>df.groupby(["index", "period"])["close"].transform(lambda s: s / s.iloc[0] * 100)\<close>

  The group of a row is the rows of the (sorted) table with the same index and period, in
  table order; \<^verbatim>\<open>s.iloc[0]\<close> is the close of the first of them, and the transform writes
  \<^verbatim>\<open>s / s.iloc[0] * 100\<close> back at the position of each row. A row outside every group
  (none exists for a row of the table) would get a missing value.
\<close>

definition group_rows :: "obs list \<Rightarrow> string \<Rightarrow> string \<Rightarrow> obs list" where
  "group_rows df i p = filter (\<lambda>r. index r = i \<and> period r = p) df"

definition rebase :: "(real \<Rightarrow> fval) \<Rightarrow> obs list \<Rightarrow> obs \<Rightarrow> fval" where
  "rebase rnd df r =
     (case group_rows df (index r) (period r) of
        [] \<Rightarrow> NaN
      | a # _ \<Rightarrow> fmul rnd (fdiv rnd (close r) (close a)) (Fin 100))"

text \<open>
  The table \<^verbatim>\<open>df\<close> as it stands after line 56: sorted, with the three derived columns.
  \<^verbatim>\<open>df["drawdown_pct"] = df["drawdown"] * 100\<close>.
\<close>

definition derive_row :: "(real \<Rightarrow> fval) \<Rightarrow> obs list \<Rightarrow> obs \<Rightarrow> drow" where
  "derive_row rnd df r =
     \<lparr> date = date r, index = index r, period = period r, close = close r,
       drawdown = drawdown r, rolling_vol_30d = rolling_vol_30d r,
       period_label = period_labels (period r),
       close_indexed_100 = rebase rnd df r,
       drawdown_pct = fmul rnd (drawdown r) (Fin 100) \<rparr>"

definition derive :: "(real \<Rightarrow> fval) \<Rightarrow> obs list \<Rightarrow> drow list" where
  "derive rnd df0 = (let df = sort_values df0 in map (derive_row rnd df) df)"

text \<open>The columns of the input file of a derived row.\<close>

definition base :: "drow \<Rightarrow> obs" where
  "base r =
     \<lparr> date = date r, index = index r, period = period r, close = close r,
       drawdown = drawdown r, rolling_vol_30d = rolling_vol_30d r \<rparr>"

text \<open>\<^verbatim>\<open>df_vol = df[df["rolling_vol_30d"].notna()].copy()\<close>\<close>

definition df_vol :: "drow list \<Rightarrow> drow list" where
  "df_vol df = filter (\<lambda>r. notna (rolling_vol_30d r)) df"

text \<open>\<^verbatim>\<open>nasdaq = df[df["index"] == "NASDAQ"].sort_values("date")\<close>\<close>

definition nasdaq :: "drow list \<Rightarrow> drow list" where
  "nasdaq df = sort_key date (filter (\<lambda>r. index r = ''NASDAQ'') df)"

section \<open>Events: period inference and alignment\<close>

text \<open>A row of \<^verbatim>\<open>eventos_dotcom_ia.xlsx\<close>: \<^verbatim>\<open>date, event_name, description\<close>.\<close>

record event =
  e_date :: date
  event_name :: string
  description :: string

text \<open>The event table after lines 74 to 76 have added \<^verbatim>\<open>period\<close> and \<^verbatim>\<open>period_label\<close>.\<close>

record cevent = event +
  e_period :: "string option"
  e_period_label :: "string option"

definition infer_period :: "date \<Rightarrow> string option" where
  "infer_period d =
     (if (1997, 1, 1) \<le> d \<and> d \<le> (2002, 12, 31) then Some ''dotcom''
      else if (2020, 1, 1) \<le> d \<and> d \<le> (2025, 12, 31) then Some ''ia''
      else None)"

text \<open>
  \<^verbatim>\<open>events["period"] = events["date"].apply(infer_period)\<close>,
  \<^verbatim>\<open>events = events[events["period"].notna()].copy()\<close>,
  \<^verbatim>\<open>events["period_label"] = events["period"].map(period_labels)\<close>.
\<close>

definition with_period :: "event \<Rightarrow> cevent" where
  "with_period e =
     \<lparr> e_date = e_date e, event_name = event_name e, description = description e,
       e_period = infer_period (e_date e), e_period_label = None \<rparr>"

definition with_label :: "cevent \<Rightarrow> cevent" where
  "with_label e = e \<lparr> e_period_label := Option.bind (e_period e) period_labels \<rparr>"

definition classify :: "event list \<Rightarrow> cevent list" where
  "classify events =
     map with_label (filter (\<lambda>e. e_period e \<noteq> None) (map with_period events))"

text \<open>
  The right-hand table of the join:
  \<^verbatim>\<open>nasdaq[["date", "close", "period", "period_label"]].sort_values("date")\<close>.
\<close>

record nrow =
  n_date :: date
  n_close :: fval
  n_period :: string
  n_period_label :: "string option"

definition nasdaq_cols :: "drow \<Rightarrow> nrow" where
  "nasdaq_cols r =
     \<lparr> n_date = date r, n_close = close r, n_period = period r,
       n_period_label = period_label r \<rparr>"

definition right_table :: "drow list \<Rightarrow> nrow list" where
  "right_table df = sort_key n_date (map nasdaq_cols (nasdaq df))"

text \<open>
  \<^verbatim>\<open>pd.merge_asof(left, right, on="date", direction="backward", suffixes=("_event", "_idx"))\<close>
  is a function of the pandas library. By its documentation both tables must be sorted by
  the key (it raises \<^verbatim>\<open>ValueError\<close> otherwise, the left table being checked first), it
  keeps every row of the left table, and a backward search selects for each left row the
  last row of the right table whose key is less than or equal to the left key; the
  right-hand columns are missing where there is none. Columns that both tables have,
  other than the key, get the suffixes.
\<close>

datatype error = Left_keys_not_sorted | Right_keys_not_sorted

record mrow =
  m_date :: date
  m_event_name :: string
  m_description :: string
  period_event :: "string option"
  period_label_event :: "string option"
  m_close :: fval
  period_idx :: "string option"
  period_label_idx :: "string option"

definition asof_backward :: "nrow list \<Rightarrow> date \<Rightarrow> nrow option" where
  "asof_backward right d =
     (case filter (\<lambda>n. n_date n \<le> d) right of
        [] \<Rightarrow> None
      | x # xs \<Rightarrow> Some (last (x # xs)))"

definition join_row :: "cevent \<Rightarrow> nrow option \<Rightarrow> mrow" where
  "join_row e m =
     \<lparr> m_date = e_date e, m_event_name = event_name e, m_description = description e,
       period_event = e_period e, period_label_event = e_period_label e,
       m_close = (case m of None \<Rightarrow> NaN | Some n \<Rightarrow> n_close n),
       period_idx = (case m of None \<Rightarrow> None | Some n \<Rightarrow> Some (n_period n)),
       period_label_idx = (case m of None \<Rightarrow> None | Some n \<Rightarrow> n_period_label n) \<rparr>"

definition merge_asof :: "cevent list \<Rightarrow> nrow list \<Rightarrow> error + mrow list" where
  "merge_asof left right =
     (if \<not> sorted (map e_date left) then Inl Left_keys_not_sorted
      else if \<not> sorted (map n_date right) then Inl Right_keys_not_sorted
      else Inr (map (\<lambda>e. join_row e (asof_backward right (e_date e))) left))"

text \<open>The left-hand table of the join: \<^verbatim>\<open>events.sort_values("date")\<close>.\<close>

definition left_table :: "event list \<Rightarrow> cevent list" where
  "left_table events = sort_key e_date (classify events)"

definition events_merged :: "drow list \<Rightarrow> event list \<Rightarrow> error + mrow list" where
  "events_merged df events = merge_asof (left_table events) (right_table df)"

text \<open>
  Lines 88 to 105: \<^verbatim>\<open>a.where(a.notna(), b)\<close> keeps \<open>a\<close> where it is present and takes
  \<open>b\<close> elsewhere; the two reconciled columns are renamed to \<^verbatim>\<open>period\<close> and
  \<^verbatim>\<open>period_label\<close> and six columns are kept.
\<close>

definition where_notna :: "'a option \<Rightarrow> 'a option \<Rightarrow> 'a option" where
  "where_notna a b = (case a of Some x \<Rightarrow> Some x | None \<Rightarrow> b)"

record arow =
  a_date :: date
  a_event_name :: string
  a_description :: string
  a_close :: fval
  a_period :: "string option"
  a_period_label :: "string option"

definition reconcile :: "mrow \<Rightarrow> arow" where
  "reconcile m =
     \<lparr> a_date = m_date m, a_event_name = m_event_name m, a_description = m_description m,
       a_close = m_close m,
       a_period = where_notna (period_event m) (period_idx m),
       a_period_label = where_notna (period_label_event m) (period_label_idx m) \<rparr>"

definition events_aligned :: "drow list \<Rightarrow> event list \<Rightarrow> error + arow list" where
  "events_aligned df events =
     (case events_merged df events of
        Inl err \<Rightarrow> Inl err
      | Inr ms \<Rightarrow> Inr (map reconcile ms))"

section \<open>Chart data\<close>

text \<open>
  Charts 1 to 3 have one panel per period; a panel holds one line per index name, in the
  order of the loop \<^verbatim>\<open>for idx_name in ["NASDAQ", "SP500"]\<close>, with the dates as x and one
  column as y.
\<close>

definition of_period :: "string \<Rightarrow> drow list \<Rightarrow> drow list" where
  "of_period p df = filter (\<lambda>r. period r = p) df"

definition panel :: "(drow \<Rightarrow> fval) \<Rightarrow> drow list \<Rightarrow> (string \<times> (date \<times> fval) list) list" where
  "panel y sub_df =
     map (\<lambda>idx_name.
            (idx_name, map (\<lambda>r. (date r, y r)) (filter (\<lambda>r. index r = idx_name) sub_df)))
       [''NASDAQ'', ''SP500'']"

definition fig1 :: "drow list \<Rightarrow> (string \<times> (date \<times> fval) list) list \<times> (string \<times> (date \<times> fval) list) list" where
  "fig1 df = (panel close_indexed_100 (of_period ''dotcom'' df),
              panel close_indexed_100 (of_period ''ia'' df))"

definition fig2 :: "drow list \<Rightarrow> (string \<times> (date \<times> fval) list) list \<times> (string \<times> (date \<times> fval) list) list" where
  "fig2 df = (panel drawdown_pct (of_period ''dotcom'' df),
              panel drawdown_pct (of_period ''ia'' df))"

text \<open>
  \<^verbatim>\<open>min_dd = df["drawdown_pct"].min()\<close> skips missing values and is missing when there is
  no value. The script computes it and does not use it again.
\<close>

definition series_min :: "fval list \<Rightarrow> fval" where
  "series_min s =
     (case filter notna s of
        [] \<Rightarrow> NaN
      | v # vs \<Rightarrow> fold (\<lambda>x m. if fle x m then x else m) vs v)"

definition min_dd :: "drow list \<Rightarrow> fval" where
  "min_dd df = series_min (map drawdown_pct df)"

text \<open>
  The two calls \<^verbatim>\<open>fig2.update_yaxes(..., row=1, col=c, range=[-100, 10])\<close> for the columns
  1 and 2: the y-axis range of each panel of the drawdown chart.
\<close>

definition fig2_yaxis_range :: "nat \<Rightarrow> (real \<times> real) option" where
  "fig2_yaxis_range col =
     (if col = 1 then Some (- 100, 10)
      else if col = 2 then Some (- 100, 10)
      else None)"

text \<open>A value lies in a displayed range when it is finite and between its two ends.\<close>

fun in_range :: "real \<times> real \<Rightarrow> fval \<Rightarrow> bool" where
  "in_range (lo, hi) (Fin v) = (lo \<le> v \<and> v \<le> hi)"
| "in_range _ _ = False"

text \<open>Chart 3 is drawn from \<^verbatim>\<open>df_vol\<close>.\<close>

definition fig3 :: "drow list \<Rightarrow> (string \<times> (date \<times> fval) list) list \<times> (string \<times> (date \<times> fval) list) list" where
  "fig3 df = (panel rolling_vol_30d (of_period ''dotcom'' (df_vol df)),
              panel rolling_vol_30d (of_period ''ia'' (df_vol df)))"

text \<open>
  Chart 4, per period: the NASDAQ line, and the event markers, a trace with the event
  dates as x, the aligned closes as y and the event names as text, added only when the
  period's event table is not empty (\<^verbatim>\<open>if not events_dotcom.empty\<close>).
\<close>

definition fig4_line :: "string \<Rightarrow> drow list \<Rightarrow> (date \<times> fval) list" where
  "fig4_line p df = map (\<lambda>r. (date r, close r)) (filter (\<lambda>r. period r = p) (nasdaq df))"

definition fig4_markers :: "string \<Rightarrow> arow list \<Rightarrow> (date \<times> fval \<times> string) list option" where
  "fig4_markers p ea =
     (let ev = filter (\<lambda>r. a_period r = Some p) ea
      in if ev = [] then None
         else Some (map (\<lambda>r. (a_date r, a_close r, a_event_name r)) ev))"

text \<open>
  The marker trace of chart 4 for one period, from the two input tables: the whole
  pipeline up to the \<^verbatim>\<open>go.Scatter(mode="markers")\<close> call of that period.
\<close>

definition chart4_markers ::
  "(real \<Rightarrow> fval) \<Rightarrow> string \<Rightarrow> obs list \<Rightarrow> event list
     \<Rightarrow> error + (date \<times> fval \<times> string) list option" where
  "chart4_markers rnd p df0 events =
     (case events_aligned (derive rnd df0) events of
        Inl err \<Rightarrow> Inl err
      | Inr ea \<Rightarrow> Inr (fig4_markers p ea))"

section \<open>Vocabulary of the properties\<close>

text \<open>An event survives period classification when \<^verbatim>\<open>infer_period\<close> gives it a period.\<close>

definition survives :: "event \<Rightarrow> bool" where
  "survives e = (infer_period (e_date e) \<noteq> None)"

text \<open>
  The input contract of the \<^verbatim>\<open>drawdown\<close> column: a finite fraction between \<open>-1\<close> and
  \<open>0\<close>.
\<close>

definition drawdown_in_contract :: "obs \<Rightarrow> bool" where
  "drawdown_in_contract r = (case drawdown r of Fin d \<Rightarrow> - 1 \<le> d \<and> d \<le> 0 | _ \<Rightarrow> False)"

section \<open>Sample inputs\<close>

text \<open>
  A small observation table, unsorted as a file may be, and an event table with one event
  per situation: matched inside its own period, earlier than every observation, outside
  both periods, and in the later period before that period's first observation.
\<close>

definition ex_df :: "obs list" where
  "ex_df =
     [\<lparr> date = (2023, 12, 1), index = ''NASDAQ'', period = ''ia'', close = Fin 14300,
         drawdown = Fin (- 0.25), rolling_vol_30d = Fin 0.25 \<rparr>,
      \<lparr> date = (1999, 1, 4), index = ''NASDAQ'', period = ''dotcom'', close = Fin 110,
         drawdown = Fin (- 0.5), rolling_vol_30d = NaN \<rparr>,
      \<lparr> date = (2023, 11, 29), index = ''NASDAQ'', period = ''ia'', close = Fin 14200,
         drawdown = NaN, rolling_vol_30d = Fin 0.5 \<rparr>,
      \<lparr> date = (1999, 1, 1), index = ''NASDAQ'', period = ''dotcom'', close = Fin 100,
         drawdown = Fin 0, rolling_vol_30d = NaN \<rparr>,
      \<lparr> date = (1999, 1, 4), index = ''SP500'', period = ''dotcom'', close = Fin 1200,
         drawdown = Fin 0, rolling_vol_30d = Fin 0.125 \<rparr>]"

definition ev_matched :: event where
  "ev_matched = \<lparr> e_date = (2023, 11, 30), event_name = ''B'', description = ''b'' \<rparr>"

definition ev_early :: event where
  "ev_early = \<lparr> e_date = (1998, 6, 1), event_name = ''A'', description = ''a'' \<rparr>"

definition ev_outside :: event where
  "ev_outside = \<lparr> e_date = (2010, 1, 1), event_name = ''C'', description = ''c'' \<rparr>"

definition ev_gap :: event where
  "ev_gap = \<lparr> e_date = (2021, 5, 1), event_name = ''D'', description = ''d'' \<rparr>"

definition ex_events :: "event list" where
  "ex_events = [ev_matched, ev_early, ev_outside, ev_gap]"

text \<open>
  The scenario of an event dated 2001-03-15 with no NASDAQ observation on or before that
  date.
\<close>

definition late_df :: "obs list" where
  "late_df =
     [\<lparr> date = (2001, 3, 16), index = ''NASDAQ'', period = ''dotcom'', close = Fin 1900,
         drawdown = Fin (- 0.5), rolling_vol_30d = NaN \<rparr>]"

definition early_events :: "event list" where
  "early_events =
     [\<lparr> e_date = (2001, 3, 15), event_name = ''E'', description = ''e'' \<rparr>]"

section \<open>Properties\<close>

subsection \<open>Lists sorted by a key\<close>

lemma key_sorted_last_max:
  fixes f :: "'a \<Rightarrow> 'k::linorder"
  assumes "sorted (map f xs)" and "x \<in> set xs"
  shows "f x \<le> f (last xs)"
  using assms
proof (induction xs)
  case Nil
  then show ?case by simp
next
  case (Cons y ys)
  show ?case
  proof (cases "ys = []")
    case True
    with Cons.prems show ?thesis by simp
  next
    case False
    then have l: "last ys \<in> set ys" by simp
    from Cons.prems have s: "sorted (map f ys)" and h: "\<forall>z\<in>set ys. f y \<le> f z"
      by simp_all
    show ?thesis
    proof (cases "x = y")
      case True
      with h l False show ?thesis by simp
    next
      case neq: False
      with Cons.prems have "x \<in> set ys" by simp
      with Cons.IH s False show ?thesis by simp
    qed
  qed
qed


lemma insort_key_map:
  "insort_key f (g x) (map g xs) = map g (insort_key (\<lambda>a. f (g a)) x xs)"
  by (induction xs) simp_all

lemma sort_key_map: "sort_key f (map g xs) = map g (sort_key (\<lambda>a. f (g a)) xs)"
  by (induction xs) (simp_all add: insort_key_map)

lemma member_nonempty: "x \<in> set xs \<Longrightarrow> xs \<noteq> []"
  by (cases xs) simp_all

lemma member_map: "x \<in> set xs \<Longrightarrow> f x \<in> set (map f xs)"
  by simp

subsection \<open>The derived table\<close>

lemma derive_row_sel [simp]:
  "date (derive_row rnd df r) = date r"
  "index (derive_row rnd df r) = index r"
  "period (derive_row rnd df r) = period r"
  "close (derive_row rnd df r) = close r"
  "drawdown (derive_row rnd df r) = drawdown r"
  "rolling_vol_30d (derive_row rnd df r) = rolling_vol_30d r"
  "period_label (derive_row rnd df r) = period_labels (period r)"
  "close_indexed_100 (derive_row rnd df r) = rebase rnd df r"
  "drawdown_pct (derive_row rnd df r) = fmul rnd (drawdown r) (Fin 100)"
  by (simp_all add: derive_row_def)

lemma base_derive_row [simp]: "base (derive_row rnd df r) = r"
  by (simp add: base_def)

lemma derive_eq: "derive rnd df0 = map (derive_row rnd (sort_values df0)) (sort_values df0)"
  by (simp add: derive_def Let_def)

lemma set_sort_values [simp]: "set (sort_values df) = set df"
  by (simp add: sort_values_def)

lemma base_derive: "map base (derive rnd df0) = sort_values df0"
  by (simp add: derive_eq o_def)

lemma derive_rowE:
  assumes "r \<in> set (derive rnd df0)"
  obtains r0 where "r0 \<in> set df0" and "r = derive_row rnd (sort_values df0) r0"
  using assms by (auto simp: derive_eq)



lemma panel_points:
  assumes "tr \<in> set (panel y sub_df)" and "pt \<in> set (snd tr)"
  shows "\<exists>r\<in>set sub_df. index r = fst tr \<and> pt = (date r, y r)"
  using assms by (auto simp: panel_def)

subsection \<open>Period inference and the join\<close>




lemma classified_sel [simp]:
  "e_date (with_label (with_period e)) = e_date e"
  "event_name (with_label (with_period e)) = event_name e"
  "description (with_label (with_period e)) = description e"
  "e_period (with_label (with_period e)) = infer_period (e_date e)"
  "e_period_label (with_label (with_period e)) =
     Option.bind (infer_period (e_date e)) period_labels"
  by (simp_all add: with_label_def with_period_def)

lemma classify_eq:
  "classify events = map (with_label \<circ> with_period) (filter survives events)"
proof -
  have "(\<lambda>e. e_period e \<noteq> None) \<circ> with_period = survives"
    by (rule ext) (simp add: survives_def with_period_def)
  then show ?thesis
    by (simp add: classify_def filter_map)
qed

lemma left_table_eq:
  "left_table events =
     map (with_label \<circ> with_period) (sort_key e_date (filter survives events))"
  by (simp add: left_table_def classify_eq sort_key_map)

lemma left_tableE:
  assumes "c \<in> set (left_table events)"
  obtains e where "e \<in> set events" and "survives e" and "c = with_label (with_period e)"
  using assms by (auto simp: left_table_eq)


lemma left_table_sorted: "sorted (map e_date (left_table events))"
  by (simp add: left_table_def)

lemma right_table_sorted: "sorted (map n_date (right_table df))"
  by (simp add: right_table_def)

lemma set_right_table:
  "set (right_table df) = nasdaq_cols ` {r \<in> set df. index r = ''NASDAQ''}"
  by (auto simp: right_table_def nasdaq_def)

lemma nasdaq_cols_sel [simp]:
  "n_date (nasdaq_cols r) = date r"
  "n_close (nasdaq_cols r) = close r"
  "n_period (nasdaq_cols r) = period r"
  "n_period_label (nasdaq_cols r) = period_label r"
  by (simp_all add: nasdaq_cols_def)

lemma right_table_derive:
  "n \<in> set (right_table (derive rnd df0)) \<longleftrightarrow>
     (\<exists>r\<in>set df0. index r = ''NASDAQ'' \<and> n = nasdaq_cols (derive_row rnd (sort_values df0) r))"
  by (auto simp: set_right_table derive_eq)

text \<open>
  Both tables reach the join sorted by date, so \<^verbatim>\<open>merge_asof\<close> never raises: the join
  is total, with one row per surviving event.
\<close>

lemma events_merged_eq:
  "events_merged df events =
     Inr (map (\<lambda>e. join_row e (asof_backward (right_table df) (e_date e))) (left_table events))"
  by (simp add: events_merged_def merge_asof_def left_table_sorted right_table_sorted)

lemma events_aligned_eq:
  "events_aligned df events =
     Inr (map (\<lambda>e. reconcile (join_row e (asof_backward (right_table df) (e_date e))))
            (left_table events))"
  by (simp add: events_aligned_def events_merged_eq o_def)

lemma asof_backward_None:
  "asof_backward right d = None \<longleftrightarrow> (\<forall>x\<in>set right. \<not> n_date x \<le> d)"
  by (simp add: asof_backward_def filter_empty_conv [symmetric] split: list.splits)

lemma asof_backward_Some:
  assumes "sorted (map n_date right)" and "asof_backward right d = Some n"
  shows "n \<in> set right \<and> n_date n \<le> d
    \<and> (\<forall>x\<in>set right. n_date x \<le> d \<longrightarrow> n_date x \<le> n_date n)"
proof -
  let ?fs = "filter (\<lambda>n. n_date n \<le> d) right"
  from assms(2) have ne: "?fs \<noteq> []" and n: "n = last ?fs"
    by (auto simp: asof_backward_def split: list.splits)
  from ne have "last ?fs \<in> set ?fs" by (rule last_in_set)
  with n have mem: "n \<in> set right" "n_date n \<le> d" by auto
  have s: "sorted (map n_date ?fs)"
    using assms(1) by (rule sorted_filter)
  have "n_date x \<le> n_date n" if "x \<in> set right" "n_date x \<le> d" for x
  proof -
    from that have "x \<in> set ?fs" by simp
    from key_sorted_last_max [OF s this] n show ?thesis by simp
  qed
  with mem show ?thesis by blast
qed

subsection \<open>Rounding\<close>

lemma float_rounding_int:
  assumes "float_rounding rnd" and "\<bar>n\<bar> \<le> 2 ^ 53"
  shows "rnd (of_int n) = Fin (of_int n)"
  using assms by (simp add: float_rounding_def)

lemma float_rounding_consts:
  assumes "float_rounding rnd"
  shows "rnd 0 = Fin 0" and "rnd 1 = Fin 1" and "rnd 100 = Fin 100"
    and "rnd (- 100) = Fin (- 100)"
  using float_rounding_int [OF assms, of 0] float_rounding_int [OF assms, of 1]
    float_rounding_int [OF assms, of 100] float_rounding_int [OF assms, of "- 100"]
  by simp_all

lemma float_rounding_not_NaN: "float_rounding rnd \<Longrightarrow> rnd x \<noteq> NaN"
  by (simp add: float_rounding_def)

lemma float_rounding_mono: "float_rounding rnd \<Longrightarrow> x \<le> y \<Longrightarrow> fle (rnd x) (rnd y)"
  by (simp add: float_rounding_def)

lemma float_rounding_between:
  assumes "float_rounding rnd" and "- 100 \<le> x" and "x \<le> 0"
  shows "\<exists>v. rnd x = Fin v \<and> - 100 \<le> v \<and> v \<le> 0"
proof -
  from float_rounding_mono [OF assms(1) assms(2)] float_rounding_consts(4) [OF assms(1)]
  have lo: "fle (Fin (- 100)) (rnd x)" by simp
  from float_rounding_mono [OF assms(1) assms(3)] float_rounding_consts(1) [OF assms(1)]
  have hi: "fle (rnd x) (Fin 0)" by simp
  from lo hi show ?thesis by (cases "rnd x") simp_all
qed

lemma fmul_100_NaN:
  assumes "float_rounding rnd"
  shows "fmul rnd v (Fin 100) = NaN \<longleftrightarrow> v = NaN"
  using float_rounding_not_NaN [OF assms] by (cases v) simp_all

lemma float_rounding_exact: "float_rounding exact"
  by (simp add: float_rounding_def exact_def)

subsection \<open>The sample inputs, evaluated\<close>

lemmas ev_defs = ev_matched_def ev_early_def ev_outside_def ev_gap_def

lemma ex_sort_values:
  "sort_values ex_df =
     [\<lparr> date = (1999, 1, 1), index = ''NASDAQ'', period = ''dotcom'', close = Fin 100,
         drawdown = Fin 0, rolling_vol_30d = NaN \<rparr>,
      \<lparr> date = (1999, 1, 4), index = ''NASDAQ'', period = ''dotcom'', close = Fin 110,
         drawdown = Fin (- 0.5), rolling_vol_30d = NaN \<rparr>,
      \<lparr> date = (2023, 11, 29), index = ''NASDAQ'', period = ''ia'', close = Fin 14200,
         drawdown = NaN, rolling_vol_30d = Fin 0.5 \<rparr>,
      \<lparr> date = (2023, 12, 1), index = ''NASDAQ'', period = ''ia'', close = Fin 14300,
         drawdown = Fin (- 0.25), rolling_vol_30d = Fin 0.25 \<rparr>,
      \<lparr> date = (1999, 1, 4), index = ''SP500'', period = ''dotcom'', close = Fin 1200,
         drawdown = Fin 0, rolling_vol_30d = Fin 0.125 \<rparr>]"
  by (simp add: sort_values_def ex_df_def)

lemma ex_left_table:
  "left_table ex_events =
     [with_label (with_period ev_early), with_label (with_period ev_gap),
      with_label (with_period ev_matched)]"
  by (simp add: left_table_eq ex_events_def survives_def infer_period_def ev_defs)

lemma ex_right_table:
  "right_table (derive rnd ex_df) =
     [\<lparr> n_date = (1999, 1, 1), n_close = Fin 100, n_period = ''dotcom'',
         n_period_label = period_labels ''dotcom'' \<rparr>,
      \<lparr> n_date = (1999, 1, 4), n_close = Fin 110, n_period = ''dotcom'',
         n_period_label = period_labels ''dotcom'' \<rparr>,
      \<lparr> n_date = (2023, 11, 29), n_close = Fin 14200, n_period = ''ia'',
         n_period_label = period_labels ''ia'' \<rparr>,
      \<lparr> n_date = (2023, 12, 1), n_close = Fin 14300, n_period = ''ia'',
         n_period_label = period_labels ''ia'' \<rparr>]"
  by (simp add: right_table_def nasdaq_def derive_eq ex_sort_values nasdaq_cols_def)

lemma ex_asof_matched:
  "asof_backward (right_table (derive rnd ex_df)) (e_date ev_matched) =
     Some \<lparr> n_date = (2023, 11, 29), n_close = Fin 14200, n_period = ''ia'',
            n_period_label = period_labels ''ia'' \<rparr>"
  by (simp add: ex_right_table asof_backward_def ev_matched_def)

lemma ex_asof_gap:
  "asof_backward (right_table (derive rnd ex_df)) (e_date ev_gap) =
     Some \<lparr> n_date = (1999, 1, 4), n_close = Fin 110, n_period = ''dotcom'',
            n_period_label = period_labels ''dotcom'' \<rparr>"
  by (simp add: ex_right_table asof_backward_def ev_gap_def)

lemma ex_asof_early:
  "asof_backward (right_table (derive rnd ex_df)) (e_date ev_early) = None"
  by (simp add: ex_right_table asof_backward_def ev_early_def)

lemma ex_events_merged:
  "events_merged (derive rnd ex_df) ex_events =
     Inr [join_row (with_label (with_period ev_early)) None,
          join_row (with_label (with_period ev_gap))
            (Some \<lparr> n_date = (1999, 1, 4), n_close = Fin 110, n_period = ''dotcom'',
                    n_period_label = period_labels ''dotcom'' \<rparr>),
          join_row (with_label (with_period ev_matched))
            (Some \<lparr> n_date = (2023, 11, 29), n_close = Fin 14200, n_period = ''ia'',
                    n_period_label = period_labels ''ia'' \<rparr>)]"
  by (simp add: events_merged_eq ex_left_table ex_asof_early ex_asof_gap ex_asof_matched)

lemma ex_chart4_ia:
  "chart4_markers rnd ''ia'' ex_df ex_events =
     Inr (Some [((2021, 5, 1), Fin 110, ''D''), ((2023, 11, 30), Fin 14200, ''B'')])"
  by (simp add: chart4_markers_def events_aligned_def ex_events_merged fig4_markers_def
      reconcile_def join_row_def where_notna_def infer_period_def ev_defs)


subsection \<open>Event alignment\<close>

text \<open>
  C1. As-of correctness, on the table that the join returns. The join succeeds, the
  aligned table is its reconciliation row by row, and its rows are the surviving events
  in date order. Every row \<open>m\<close> of the join keeps its date and close through the
  reconciliation, and either no NASDAQ row of the input is dated on or before the event
  date, and then the close and the matched period are missing; or there is a NASDAQ row
  \<open>r\<close> of the input, dated on or before the event date, such that no NASDAQ row of the
  input is dated after \<open>r\<close> and on or before the event date (so none lies strictly
  between the two dates), and the row carries the close and the period of \<open>r\<close>.
\<close>

theorem asof_join_latest_not_after:
  "\<exists>ms. events_merged (derive rnd df0) events = Inr ms
     \<and> events_aligned (derive rnd df0) events = Inr (map reconcile ms)
     \<and> map (\<lambda>m. (m_date m, m_event_name m, m_description m)) ms
         = map (\<lambda>e. (e_date e, event_name e, description e))
             (sort_key e_date (filter survives events))
     \<and> (\<forall>m\<in>set ms.
           a_date (reconcile m) = m_date m \<and> a_close (reconcile m) = m_close m
         \<and> (((\<forall>r\<in>set df0. index r = ''NASDAQ'' \<longrightarrow> \<not> date r \<le> m_date m)
               \<and> m_close m = NaN \<and> period_idx m = None)
            \<or> (\<exists>r\<in>set df0. index r = ''NASDAQ'' \<and> date r \<le> m_date m
                 \<and> (\<forall>r'\<in>set df0. index r' = ''NASDAQ'' \<longrightarrow>
                       \<not> (date r < date r' \<and> date r' \<le> m_date m))
                 \<and> m_close m = close r \<and> period_idx m = Some (period r))))"
proof -
  let ?R = "right_table (derive rnd df0)"
  let ?ms = "map (\<lambda>c. join_row c (asof_backward ?R (e_date c))) (left_table events)"
  have 1: "events_merged (derive rnd df0) events = Inr ?ms"
    by (rule events_merged_eq)
  then have 2: "events_aligned (derive rnd df0) events = Inr (map reconcile ?ms)"
    by (simp add: events_aligned_def)
  have 3: "map (\<lambda>m. (m_date m, m_event_name m, m_description m)) ?ms
         = map (\<lambda>e. (e_date e, event_name e, description e))
             (sort_key e_date (filter survives events))"
    by (simp add: left_table_eq join_row_def o_def)
  have in_R: "nasdaq_cols (derive_row rnd (sort_values df0) r) \<in> set ?R"
    if "r \<in> set df0" "index r = ''NASDAQ''" for r
    using that by (auto simp: right_table_derive)
  have 4: "a_date (reconcile m) = m_date m \<and> a_close (reconcile m) = m_close m
         \<and> (((\<forall>r\<in>set df0. index r = ''NASDAQ'' \<longrightarrow> \<not> date r \<le> m_date m)
               \<and> m_close m = NaN \<and> period_idx m = None)
            \<or> (\<exists>r\<in>set df0. index r = ''NASDAQ'' \<and> date r \<le> m_date m
                 \<and> (\<forall>r'\<in>set df0. index r' = ''NASDAQ'' \<longrightarrow>
                       \<not> (date r < date r' \<and> date r' \<le> m_date m))
                 \<and> m_close m = close r \<and> period_idx m = Some (period r)))"
    if "m \<in> set ?ms" for m
  proof -
    from that obtain c where m: "m = join_row c (asof_backward ?R (e_date c))"
      by auto
    let ?d = "e_date c"
    have d: "m_date m = ?d"
      by (simp add: m join_row_def)
    have rec: "a_date (reconcile m) = m_date m \<and> a_close (reconcile m) = m_close m"
      by (simp add: reconcile_def)
    show ?thesis
    proof (cases "asof_backward ?R ?d")
      case None
      then have "\<forall>x\<in>set ?R. \<not> n_date x \<le> ?d"
        by (simp add: asof_backward_None)
      with in_R have "\<forall>r\<in>set df0. index r = ''NASDAQ'' \<longrightarrow> \<not> date r \<le> ?d"
        by fastforce
      moreover have "m_close m = NaN" "period_idx m = None"
        by (simp_all add: m join_row_def None)
      ultimately show ?thesis
        using rec by (simp add: d)
    next
      case (Some n)
      from asof_backward_Some [OF right_table_sorted Some]
      have n: "n \<in> set ?R" "n_date n \<le> ?d"
          "\<forall>x\<in>set ?R. n_date x \<le> ?d \<longrightarrow> n_date x \<le> n_date n"
        by blast+
      from n(1) obtain r where r: "r \<in> set df0" "index r = ''NASDAQ''"
          "n = nasdaq_cols (derive_row rnd (sort_values df0) r)"
        by (auto simp: right_table_derive)
      have nr: "n_date n = date r" "n_close n = close r" "n_period n = period r"
        by (simp_all add: r(3))
      have carried: "m_close m = close r" "period_idx m = Some (period r)"
        by (simp_all add: m join_row_def Some nr)
      have gap: "\<not> (date r < date r' \<and> date r' \<le> ?d)"
        if "r' \<in> set df0" "index r' = ''NASDAQ''" for r'
      proof
        assume a: "date r < date r' \<and> date r' \<le> ?d"
        from in_R [OF that] n(3) a
        have "date r' \<le> n_date n" by fastforce
        then have "date r' \<le> date r" by (simp only: nr)
        moreover from a have "\<not> date r' \<le> date r" by (simp only: not_le)
        ultimately show False by contradiction
      qed
      from n(2) have "date r \<le> ?d" by (simp only: nr)
      with r(1,2) gap carried
      have "\<exists>r\<in>set df0. index r = ''NASDAQ'' \<and> date r \<le> m_date m
                 \<and> (\<forall>r'\<in>set df0. index r' = ''NASDAQ'' \<longrightarrow>
                       \<not> (date r < date r' \<and> date r' \<le> m_date m))
                 \<and> m_close m = close r \<and> period_idx m = Some (period r)"
        unfolding d by blast
      with rec show ?thesis by blast
    qed
  qed
  from 1 2 3 4 show ?thesis by blast
qed

text \<open>
  The scenario of an event dated 2023-11-30 with NASDAQ observations on 2023-11-29 and
  2023-12-01: it aligns to the close 14200 of 2023-11-29. The event of 1998 has no
  match; the event of 2021 aligns to the last observation of 1999.
\<close>

theorem asof_join_latest_not_after_witness:
  "\<exists>ms. events_merged (derive exact ex_df) ex_events = Inr ms
     \<and> map (\<lambda>m. (m_date m, m_event_name m, m_description m)) ms
         = map (\<lambda>e. (e_date e, event_name e, description e))
             (sort_key e_date (filter survives ex_events))
     \<and> map m_date ms = [(1998, 6, 1), (2021, 5, 1), (2023, 11, 30)]
     \<and> map m_close ms = [NaN, Fin 110, Fin 14200]
     \<and> map period_idx ms = [None, Some ''dotcom'', Some ''ia'']"
proof -
  from asof_join_latest_not_after [of exact ex_df ex_events]
  obtain ms where ms: "events_merged (derive exact ex_df) ex_events = Inr ms"
      "map (\<lambda>m. (m_date m, m_event_name m, m_description m)) ms
         = map (\<lambda>e. (e_date e, event_name e, description e))
             (sort_key e_date (filter survives ex_events))"
    by blast
  from ms(1) have eq: "ms =
     [join_row (with_label (with_period ev_early)) None,
      join_row (with_label (with_period ev_gap))
        (Some \<lparr> n_date = (1999, 1, 4), n_close = Fin 110, n_period = ''dotcom'',
                n_period_label = period_labels ''dotcom'' \<rparr>),
      join_row (with_label (with_period ev_matched))
        (Some \<lparr> n_date = (2023, 11, 29), n_close = Fin 14200, n_period = ''ia'',
                n_period_label = period_labels ''ia'' \<rparr>)]"
    by (simp add: ex_events_merged)
  have "map m_date ms = [(1998, 6, 1), (2021, 5, 1), (2023, 11, 30)]"
    by (simp add: eq join_row_def ev_defs)
  moreover have "map m_close ms = [NaN, Fin 110, Fin 14200]"
    by (simp add: eq join_row_def)
  moreover have "map period_idx ms = [None, Some ''dotcom'', Some ''ia'']"
    by (simp add: eq join_row_def)
  ultimately show ?thesis
    using ms by (intro exI [of _ ms]) simp
qed

text \<open>
  C2, as the script has it. A surviving event \<open>c\<close> of period \<open>p\<close> with no NASDAQ
  observation on or before its date keeps its row in the aligned table, with a missing
  close, and that row is a point of the marker trace of period \<open>p\<close> in chart 4: its
  date as x, NaN as y, its name as text. Nothing between the join and the
  \<^verbatim>\<open>go.Scatter\<close> call drops a row whose close is missing; the guard
  \<^verbatim>\<open>if not events_dotcom.empty\<close> only skips a period that has no event at all.
\<close>

theorem unmatched_event_has_nan_marker:
  assumes "c \<in> set (left_table events)"
    and "e_period c = Some p"
    and "\<forall>r\<in>set df0. index r = ''NASDAQ'' \<longrightarrow> \<not> date r \<le> e_date c"
  shows "\<exists>ea tr. events_aligned (derive rnd df0) events = Inr ea
      \<and> (\<exists>a\<in>set ea. a_date a = e_date c \<and> a_event_name a = event_name c
            \<and> a_close a = NaN \<and> a_period a = Some p)
      \<and> chart4_markers rnd p df0 events = Inr (Some tr)
      \<and> (e_date c, NaN, event_name c) \<in> set tr"
proof -
  let ?R = "right_table (derive rnd df0)"
  let ?row = "\<lambda>e. reconcile (join_row e (asof_backward ?R (e_date e)))"
  let ?ea = "map ?row (left_table events)"
  let ?ev = "filter (\<lambda>r. a_period r = Some p) ?ea"
  have ea: "events_aligned (derive rnd df0) events = Inr ?ea"
    by (rule events_aligned_eq)
  have "\<forall>x\<in>set ?R. \<not> n_date x \<le> e_date c"
    using assms(3) by (auto simp: right_table_derive)
  then have none: "asof_backward ?R (e_date c) = None"
    by (simp add: asof_backward_None)
  have row: "a_date (?row c) = e_date c" "a_event_name (?row c) = event_name c"
      "a_close (?row c) = NaN" "a_period (?row c) = Some p"
    by (simp_all add: none reconcile_def join_row_def where_notna_def assms(2))
  from assms(1) have mem: "?row c \<in> set ?ea" by simp
  with row(4) have ev: "?row c \<in> set ?ev" by simp
  then have ne: "?ev \<noteq> []" by (rule member_nonempty)
  let ?tr = "map (\<lambda>r. (a_date r, a_close r, a_event_name r)) ?ev"
  have tr: "chart4_markers rnd p df0 events = Inr (Some ?tr)"
    using ne by (simp add: chart4_markers_def ea fig4_markers_def Let_def)
  from ev have "(a_date (?row c), a_close (?row c), a_event_name (?row c)) \<in> set ?tr"
    by (rule member_map)
  then have pt: "(e_date c, NaN, event_name c) \<in> set ?tr"
    by (simp only: row)
  from mem row have "\<exists>a\<in>set ?ea. a_date a = e_date c \<and> a_event_name a = event_name c
            \<and> a_close a = NaN \<and> a_period a = Some p"
    by blast
  with ea tr pt show ?thesis by blast
qed

theorem unmatched_event_has_nan_marker_witness:
  "with_label (with_period ev_early) \<in> set (left_table ex_events)
   \<and> e_period (with_label (with_period ev_early)) = Some ''dotcom''
   \<and> filter (\<lambda>r. index r = ''NASDAQ'' \<and> date r \<le> (1998, 6, 1)) ex_df = []
   \<and> (\<exists>tr. chart4_markers exact ''dotcom'' ex_df ex_events = Inr (Some tr)
         \<and> ((1998, 6, 1), NaN, ''A'') \<in> set tr)"
proof -
  let ?c = "with_label (with_period ev_early)"
  have h1: "?c \<in> set (left_table ex_events)"
    by (simp add: ex_left_table)
  have h2: "e_period ?c = Some ''dotcom''"
    by (simp add: ev_early_def infer_period_def)
  have h3: "\<forall>r\<in>set ex_df. index r = ''NASDAQ'' \<longrightarrow> \<not> date r \<le> e_date ?c"
    by (simp add: ex_df_def ev_early_def)
  have f: "filter (\<lambda>r. index r = ''NASDAQ'' \<and> date r \<le> (1998, 6, 1)) ex_df = []"
    by (simp add: ex_df_def)
  have sel: "e_date ?c = (1998, 6, 1)" "event_name ?c = ''A''"
    by (simp_all add: ev_early_def)
  from unmatched_event_has_nan_marker [OF h1 h2 h3, of exact]
  have "\<exists>tr. chart4_markers exact ''dotcom'' ex_df ex_events = Inr (Some tr)
         \<and> ((1998, 6, 1), NaN, ''A'') \<in> set tr"
    by (simp only: sel) blast
  with h1 h2 f show ?thesis by blast
qed

text \<open>
  C2 as stated fails: for the event dated 2001-03-15, with the only NASDAQ observation on
  2001-03-16, the marker trace of the dotcom panel holds the event, with a missing y.
\<close>

theorem unmatched_event_marker_counterexample:
  "map date late_df = [(2001, 3, 16)]
   \<and> map e_date early_events = [(2001, 3, 15)]
   \<and> infer_period (2001, 3, 15) = Some ''dotcom''
   \<and> chart4_markers exact ''dotcom'' late_df early_events = Inr (Some [((2001, 3, 15), NaN, ''E'')])"
  by (simp add: late_df_def early_events_def infer_period_def chart4_markers_def
      events_aligned_eq left_table_eq survives_def right_table_def nasdaq_def derive_eq
      sort_values_def nasdaq_cols_def asof_backward_def fig4_markers_def reconcile_def
      join_row_def where_notna_def)

text \<open>
  C6. The join always succeeds, and in every merged row the event's own period is
  present and is the period inferred from the event's date; the reconciled period is
  that period, whatever the matched observation's period is: \<^verbatim>\<open>where\<close> never takes its
  second argument.
\<close>

theorem reconciled_period_is_own_period:
  "\<exists>ms. events_merged df events = Inr ms
     \<and> events_aligned df events = Inr (map reconcile ms)
     \<and> (\<forall>m\<in>set ms.
           period_event m \<noteq> None
         \<and> period_event m = infer_period (m_date m)
         \<and> a_period (reconcile m) = period_event m
         \<and> (\<forall>alt. where_notna (period_event m) alt = period_event m))"
proof -
  let ?ms = "map (\<lambda>e. join_row e (asof_backward (right_table df) (e_date e))) (left_table events)"
  have 1: "events_merged df events = Inr ?ms"
    by (rule events_merged_eq)
  then have 2: "events_aligned df events = Inr (map reconcile ?ms)"
    by (simp add: events_aligned_def)
  have 3: "period_event m \<noteq> None
         \<and> period_event m = infer_period (m_date m)
         \<and> a_period (reconcile m) = period_event m
         \<and> (\<forall>alt. where_notna (period_event m) alt = period_event m)"
    if "m \<in> set ?ms" for m
  proof -
    from that obtain c where c: "c \<in> set (left_table events)"
        "m = join_row c (asof_backward (right_table df) (e_date c))"
      by auto
    from c(1) obtain e where e: "survives e" "c = with_label (with_period e)"
      by (rule left_tableE)
    from e(1) obtain q where q: "infer_period (e_date e) = Some q"
      by (auto simp: survives_def)
    have "period_event m = Some q" "m_date m = e_date e"
      by (simp_all add: c(2) e(2) join_row_def q)
    then show ?thesis
      by (simp add: q reconcile_def where_notna_def)
  qed
  from 1 2 3 show ?thesis by blast
qed

text \<open>
  On the sample the second event has period ia from its date while its matched
  observation has period dotcom; the reconciled period is ia.
\<close>

theorem reconciled_period_is_own_period_witness:
  "\<exists>ms. events_merged (derive exact ex_df) ex_events = Inr ms
     \<and> map period_event ms = [Some ''dotcom'', Some ''ia'', Some ''ia'']
     \<and> map period_idx ms = [None, Some ''dotcom'', Some ''ia'']
     \<and> map (a_period \<circ> reconcile) ms = map period_event ms"
proof -
  from reconciled_period_is_own_period [of "derive exact ex_df" ex_events]
  obtain ms where ms: "events_merged (derive exact ex_df) ex_events = Inr ms"
      "\<forall>m\<in>set ms. a_period (reconcile m) = period_event m"
    by blast
  from ms(1) have eq: "ms =
     [join_row (with_label (with_period ev_early)) None,
      join_row (with_label (with_period ev_gap))
        (Some \<lparr> n_date = (1999, 1, 4), n_close = Fin 110, n_period = ''dotcom'',
                n_period_label = period_labels ''dotcom'' \<rparr>),
      join_row (with_label (with_period ev_matched))
        (Some \<lparr> n_date = (2023, 11, 29), n_close = Fin 14200, n_period = ''ia'',
                n_period_label = period_labels ''ia'' \<rparr>)]"
    by (simp add: ex_events_merged)
  have "map period_event ms = [Some ''dotcom'', Some ''ia'', Some ''ia'']"
    by (simp add: eq join_row_def infer_period_def ev_defs)
  moreover have "map period_idx ms = [None, Some ''dotcom'', Some ''ia'']"
    by (simp add: eq join_row_def)
  moreover have "map (a_period \<circ> reconcile) ms = map period_event ms"
    by (intro map_cong refl) (simp add: ms(2))
  ultimately show ?thesis
    using ms(1) by (intro exI [of _ ms]) simp
qed

text \<open>
  C7. The join searches the whole NASDAQ series, across periods. There is an input with
  an event \<open>e\<close> of period ia, dated before every NASDAQ observation of period ia (of
  which there are some), and a NASDAQ observation \<open>r\<close> of period dotcom with a finite
  close \<open>v\<close> that no other row of the input has, such that the row of \<open>e\<close> in the join
  carries the period dotcom and the close \<open>v\<close> of \<open>r\<close>, and \<open>v\<close> is the y value of
  the marker of \<open>e\<close> in the ia panel of chart 4.
\<close>

theorem cross_period_match_exists:
  "\<exists>df0 events e r v ms m tr.
     e \<in> set events
   \<and> infer_period (e_date e) = Some ''ia''
   \<and> filter (\<lambda>x. index x = ''NASDAQ'' \<and> period x = ''ia'') df0 \<noteq> []
   \<and> filter (\<lambda>x. index x = ''NASDAQ'' \<and> period x = ''ia'' \<and> date x \<le> e_date e) df0 = []
   \<and> r \<in> set df0 \<and> index r = ''NASDAQ'' \<and> period r = ''dotcom'' \<and> date r \<le> e_date e
   \<and> close r = Fin v
   \<and> filter (\<lambda>x. close x = Fin v) df0 = [r]
   \<and> events_merged (derive rnd df0) events = Inr ms
   \<and> m \<in> set ms \<and> m_date m = e_date e \<and> m_event_name m = event_name e
   \<and> period_event m = Some ''ia'' \<and> period_idx m = Some ''dotcom'' \<and> m_close m = Fin v
   \<and> chart4_markers rnd ''ia'' df0 events = Inr (Some tr)
   \<and> (e_date e, Fin v, event_name e) \<in> set tr"
proof -
  let ?r = "\<lparr> date = (1999, 1, 4), index = ''NASDAQ'', period = ''dotcom'', close = Fin 110,
         drawdown = Fin (- 0.5), rolling_vol_30d = NaN \<rparr>"
  let ?n = "\<lparr> n_date = (1999, 1, 4), n_close = Fin 110, n_period = ''dotcom'',
              n_period_label = period_labels ''dotcom'' \<rparr>"
  let ?ms = "[join_row (with_label (with_period ev_early)) None,
      join_row (with_label (with_period ev_gap)) (Some ?n),
      join_row (with_label (with_period ev_matched))
        (Some \<lparr> n_date = (2023, 11, 29), n_close = Fin 14200, n_period = ''ia'',
                n_period_label = period_labels ''ia'' \<rparr>)]"
  let ?m = "join_row (with_label (with_period ev_gap)) (Some ?n)"
  let ?tr = "[((2021, 5, 1), Fin 110, ''D''), ((2023, 11, 30), Fin 14200, ''B'')]"
  have 1: "ev_gap \<in> set ex_events"
    by (simp add: ex_events_def)
  have 2: "infer_period (e_date ev_gap) = Some ''ia''"
    by (simp add: ev_gap_def infer_period_def)
  have 3: "filter (\<lambda>x. index x = ''NASDAQ'' \<and> period x = ''ia'') ex_df \<noteq> []"
    by (simp add: ex_df_def)
  have 4: "filter (\<lambda>x. index x = ''NASDAQ'' \<and> period x = ''ia'' \<and> date x \<le> e_date ev_gap) ex_df = []"
    by (simp add: ex_df_def ev_gap_def)
  have 5: "?r \<in> set ex_df \<and> index ?r = ''NASDAQ'' \<and> period ?r = ''dotcom''
      \<and> date ?r \<le> e_date ev_gap \<and> close ?r = Fin 110"
    by (simp add: ex_df_def ev_gap_def)
  have 6: "filter (\<lambda>x. close x = Fin 110) ex_df = [?r]"
    by (simp add: ex_df_def)
  have 7: "events_merged (derive rnd ex_df) ex_events = Inr ?ms"
    by (rule ex_events_merged)
  have 8: "?m \<in> set ?ms"
    by simp
  have 9: "m_date ?m = e_date ev_gap \<and> m_event_name ?m = event_name ev_gap
      \<and> period_event ?m = Some ''ia'' \<and> period_idx ?m = Some ''dotcom''
      \<and> m_close ?m = Fin 110"
    by (simp add: join_row_def 2)
  have 10: "chart4_markers rnd ''ia'' ex_df ex_events = Inr (Some ?tr)"
    by (rule ex_chart4_ia)
  have 11: "(e_date ev_gap, Fin 110, event_name ev_gap) \<in> set ?tr"
    by (simp add: ev_gap_def)
  from 1 2 3 4 5 6 7 8 9 10 11 show ?thesis by blast
qed

subsection \<open>Period inference\<close>



subsection \<open>Derived columns\<close>



text \<open>
  C9. In every row of the derived table the drawdown percentage is the fractional
  drawdown multiplied by 100 in float arithmetic: for a finite fraction \<open>d\<close> it is the
  product \<open>d * 100\<close> rounded to the float format, and it is missing exactly when the
  fraction is missing. Every derived row is a row of the input.
\<close>

theorem drawdown_pct_is_drawdown_times_100:
  assumes "float_rounding rnd" and "r \<in> set (derive rnd df0)"
  shows "drawdown_pct r = fmul rnd (drawdown r) (Fin 100)
    \<and> (\<forall>d. drawdown r = Fin d \<longrightarrow> drawdown_pct r = rnd (d * 100))
    \<and> (drawdown r = NaN \<longrightarrow> drawdown_pct r = NaN)
    \<and> (drawdown_pct r = NaN \<longrightarrow> drawdown r = NaN)
    \<and> base r \<in> set df0"
proof -
  from assms(2) obtain r0 where r0: "r0 \<in> set df0" "r = derive_row rnd (sort_values df0) r0"
    by (rule derive_rowE)
  from r0 fmul_100_NaN [OF assms(1), of "drawdown r0"] show ?thesis by simp
qed

theorem drawdown_pct_is_drawdown_times_100_witness:
  "float_rounding exact
   \<and> derive exact ex_df ! 1 \<in> set (derive exact ex_df)
   \<and> drawdown (derive exact ex_df ! 1) = Fin (- 0.5)
   \<and> drawdown_pct (derive exact ex_df ! 1) = Fin (- 50)
   \<and> derive exact ex_df ! 2 \<in> set (derive exact ex_df)
   \<and> drawdown (derive exact ex_df ! 2) = NaN
   \<and> drawdown_pct (derive exact ex_df ! 2) = NaN"
proof -
  have len: "length (derive exact ex_df) = 5"
    by (simp add: derive_eq ex_sort_values)
  have m1: "derive exact ex_df ! 1 \<in> set (derive exact ex_df)"
    by (rule nth_mem) (simp add: len)
  have m2: "derive exact ex_df ! 2 \<in> set (derive exact ex_df)"
    by (rule nth_mem) (simp add: len)
  have d1: "drawdown (derive exact ex_df ! 1) = Fin (- 0.5)"
    by (simp add: derive_eq ex_sort_values)
  have d2: "drawdown (derive exact ex_df ! 2) = NaN"
    by (simp add: derive_eq ex_sort_values)
  from drawdown_pct_is_drawdown_times_100 [OF float_rounding_exact m1] d1
  have p1: "drawdown_pct (derive exact ex_df ! 1) = Fin (- 50)"
    by (simp add: exact_def)
  from drawdown_pct_is_drawdown_times_100 [OF float_rounding_exact m2] d2
  have p2: "drawdown_pct (derive exact ex_df ! 2) = NaN" by simp
  from float_rounding_exact m1 d1 p1 m2 d2 p2 show ?thesis by blast
qed

subsection \<open>Charts\<close>

text \<open>
  C8. Every row of \<^verbatim>\<open>df_vol\<close> has a rolling volatility that is not missing, is a row of
  the derived table and comes from a row of the input; every point of every line in
  either panel of the volatility chart is the date and volatility of a row of
  \<^verbatim>\<open>df_vol\<close>, and its y value is not missing.
\<close>

theorem df_vol_rows_defined:
  "(\<forall>r\<in>set (df_vol (derive rnd df0)).
       notna (rolling_vol_30d r) \<and> r \<in> set (derive rnd df0) \<and> base r \<in> set df0)
   \<and> (\<forall>tr\<in>set (fst (fig3 (derive rnd df0)) @ snd (fig3 (derive rnd df0))). \<forall>pt\<in>set (snd tr).
       notna (snd pt)
       \<and> (\<exists>r\<in>set (df_vol (derive rnd df0)). pt = (date r, rolling_vol_30d r)))"
proof -
  have rows: "notna (rolling_vol_30d r) \<and> r \<in> set (derive rnd df0) \<and> base r \<in> set df0"
    if "r \<in> set (df_vol (derive rnd df0))" for r
  proof -
    from that have r: "r \<in> set (derive rnd df0)" "notna (rolling_vol_30d r)"
      by (simp_all add: df_vol_def)
    from r(1) obtain r0 where "r0 \<in> set df0" "r = derive_row rnd (sort_values df0) r0"
      by (rule derive_rowE)
    then have "base r \<in> set df0" by simp
    with r show ?thesis by simp
  qed
  have points: "notna (snd pt)
      \<and> (\<exists>r\<in>set (df_vol (derive rnd df0)). pt = (date r, rolling_vol_30d r))"
    if tr: "tr \<in> set (fst (fig3 (derive rnd df0)) @ snd (fig3 (derive rnd df0)))"
      and pt: "pt \<in> set (snd tr)" for tr pt
  proof -
    from tr obtain p
      where "tr \<in> set (panel rolling_vol_30d (of_period p (df_vol (derive rnd df0))))"
      by (auto simp: fig3_def)
    from panel_points [OF this pt]
    obtain r where r: "r \<in> set (of_period p (df_vol (derive rnd df0)))"
        "pt = (date r, rolling_vol_30d r)"
      by blast
    from r(1) have in_vol: "r \<in> set (df_vol (derive rnd df0))"
      by (simp add: of_period_def)
    then have "notna (rolling_vol_30d r)"
      by (simp add: df_vol_def)
    with r(2) in_vol show ?thesis by auto
  qed
  from rows points show ?thesis by blast
qed

theorem df_vol_rows_defined_witness:
  "map date (df_vol (derive exact ex_df)) = [(2023, 11, 29), (2023, 12, 1), (1999, 1, 4)]
   \<and> notna (rolling_vol_30d (hd (df_vol (derive exact ex_df))))
   \<and> hd (df_vol (derive exact ex_df)) \<in> set (derive exact ex_df)"
proof -
  have d: "map date (df_vol (derive exact ex_df)) = [(2023, 11, 29), (2023, 12, 1), (1999, 1, 4)]"
    by (simp add: df_vol_def derive_eq ex_sort_values)
  then have "df_vol (derive exact ex_df) \<noteq> []" by auto
  then have "hd (df_vol (derive exact ex_df)) \<in> set (df_vol (derive exact ex_df))"
    by (rule hd_in_set)
  with df_vol_rows_defined [of exact ex_df]
  have "notna (rolling_vol_30d (hd (df_vol (derive exact ex_df))))
      \<and> hd (df_vol (derive exact ex_df)) \<in> set (derive exact ex_df)"
    by blast
  with d show ?thesis by blast
qed

text \<open>
  C5, as the script has it. Both panels of the drawdown chart get the same y-axis range,
  the constant \<open>[-100, 10]\<close>, whatever the data is. When every fractional drawdown of
  the input is within its contract (finite, between \<open>-1\<close> and \<open>0\<close>), every point
  plotted in either panel lies within that range; this holds in float arithmetic since
  rounding is monotone and \<open>-100\<close> and \<open>0\<close> are floats.
\<close>

theorem fig2_range_is_fixed:
  assumes "float_rounding rnd"
    and "list_all drawdown_in_contract df0"
    and "tr \<in> set (fst (fig2 (derive rnd df0)) @ snd (fig2 (derive rnd df0)))"
    and "pt \<in> set (snd tr)"
  shows "fig2_yaxis_range 1 = Some (- 100, 10)
    \<and> fig2_yaxis_range 2 = Some (- 100, 10)
    \<and> in_range (- 100, 10) (snd pt)"
proof -
  from assms(3) obtain p where "tr \<in> set (panel drawdown_pct (of_period p (derive rnd df0)))"
    by (auto simp: fig2_def)
  from panel_points [OF this assms(4)]
  obtain r where r: "r \<in> set (of_period p (derive rnd df0))" "pt = (date r, drawdown_pct r)"
    by blast
  from r(1) have "r \<in> set (derive rnd df0)"
    by (simp add: of_period_def)
  then obtain r0 where r0: "r0 \<in> set df0" "r = derive_row rnd (sort_values df0) r0"
    by (rule derive_rowE)
  from assms(2) r0(1) have "drawdown_in_contract r0"
    by (simp add: list_all_iff)
  then obtain d where d: "drawdown r0 = Fin d" "- 1 \<le> d" "d \<le> 0"
    by (auto simp: drawdown_in_contract_def split: fval.splits)
  then have "- 100 \<le> d * 100" "d * 100 \<le> 0"
    by simp_all
  from float_rounding_between [OF assms(1) this]
  obtain v where "rnd (d * 100) = Fin v" "- 100 \<le> v" "v \<le> 0"
    by blast
  then have "in_range (- 100, 10) (drawdown_pct r)"
    by (simp add: r0(2) d(1))
  with r(2) show ?thesis
    by (simp add: fig2_yaxis_range_def)
qed

theorem fig2_range_is_fixed_witness:
  "float_rounding exact
   \<and> list_all drawdown_in_contract late_df
   \<and> (''NASDAQ'', [((2001, 3, 16), Fin (- 50))])
        \<in> set (fst (fig2 (derive exact late_df)) @ snd (fig2 (derive exact late_df)))
   \<and> in_range (- 100, 10) (Fin (- 50))"
proof -
  have h1: "list_all drawdown_in_contract late_df"
    by (simp add: late_df_def drawdown_in_contract_def)
  have h2: "(''NASDAQ'', [((2001, 3, 16), Fin (- 50))])
        \<in> set (fst (fig2 (derive exact late_df)) @ snd (fig2 (derive exact late_df)))"
    by (simp add: fig2_def panel_def of_period_def derive_eq sort_values_def late_df_def
        exact_def)
  have h3: "((2001, 3, 16), Fin (- 50)) \<in> set (snd (''NASDAQ'', [((2001, 3, 16), Fin (- 50))]))"
    by simp
  from fig2_range_is_fixed [OF float_rounding_exact h1 h2 h3]
  have "in_range (- 100, 10) (Fin (- 50))"
    by simp
  with float_rounding_exact h1 h2 show ?thesis by blast
qed

text \<open>
  C5 as stated fails: on the sample the global minimum drawdown percentage is \<open>-50\<close>,
  and the range of both panels still starts at \<open>-100\<close>.
\<close>

theorem fig2_range_counterexample:
  "min_dd (derive exact ex_df) = Fin (- 50)
   \<and> fig2_yaxis_range 1 = Some (- 100, 10)
   \<and> fig2_yaxis_range 2 = Some (- 100, 10)"
  by (simp add: min_dd_def series_min_def derive_eq ex_sort_values fig2_yaxis_range_def
      exact_def)

end
